theory Spec2Isabelle
  imports Main "HOL-Library.Word"
begin

section \<open>The simple chatbot example: \<open>examples/simple-chatbot/bot.py\<close>\<close>

subsection \<open>Frames\<close>

text \<open>
  \<open>ImageRawFrame(image=img.tobytes(), size=img.size, format=img.format)\<close>: the fields the
  script fills in at line 46 (\<open>image\<close>, \<open>size\<close> and \<open>format\<close>, suffixed here because
  \<open>image\<close> and \<open>size\<close> are constants of HOL).
\<close>

record image_raw_frame =
  image_f :: "8 word list"
  size_f :: "int \<times> int"
  format_f :: "string option"

text \<open>
  The frame classes the script imports from \<open>pipecat.frames.frames\<close> (lines 12 to 19). The
  classes themselves are declared outside \<open>bot.py\<close>; each constructor stands for the
  instances of the class of that name (what \<open>isinstance\<close> accepts), \<open>OtherFrame\<close> for an
  instance of any other frame class, with the name of its class. The payloads of an audio
  frame and of a messages frame are never inspected by the script.
\<close>

datatype frame =
    AudioRawFrame "8 word list" int int
  | ImageRawFrame image_raw_frame
  | SpriteFrame "image_raw_frame list"
  | LLMMessagesFrame "(string \<times> string) list"
  | TTSStoppedFrame
  | OtherFrame string

fun isinstance_AudioRawFrame :: "frame \<Rightarrow> bool" where
  "isinstance_AudioRawFrame (AudioRawFrame a r c) = True"
| "isinstance_AudioRawFrame _ = False"

fun isinstance_TTSStoppedFrame :: "frame \<Rightarrow> bool" where
  "isinstance_TTSStoppedFrame TTSStoppedFrame = True"
| "isinstance_TTSStoppedFrame _ = False"

fun isinstance_SpriteFrame :: "frame \<Rightarrow> bool" where
  "isinstance_SpriteFrame (SpriteFrame imgs) = True"
| "isinstance_SpriteFrame _ = False"

datatype frame_direction = DOWNSTREAM | UPSTREAM

subsection \<open>The module's globals\<close>

text \<open>
  The names the module binds at lines 36 to 53 and that the rest of the script reads:
  \<open>sprites\<close>, \<open>flipped\<close>, \<open>quiet_frame\<close> and \<open>talking_frame\<close>.
\<close>

record globals =
  sprites :: "image_raw_frame list"
  flipped :: "image_raw_frame list"
  quiet_frame :: frame
  talking_frame :: frame

subsection \<open>\<open>class TalkingAnimation(FrameProcessor)\<close>\<close>

text \<open>
  The processor's state: the fields of the base class \<open>FrameProcessor\<close> (declared outside
  \<open>bot.py\<close>, so left as a type parameter), the flag \<open>_is_talking\<close>, and the frames handed to
  \<open>push_frame\<close> so far, oldest first, each with the direction it was pushed in.
\<close>

record 'b talking_animation =
  base :: 'b
  is_talking :: bool
  pushed :: "(frame \<times> frame_direction) list"

text \<open>
  \<open>__init__\<close> (lines 62 to 64): \<open>super().__init__()\<close> gives the base class's fields, then
  \<open>self._is_talking = False\<close>. Nothing has been pushed yet.
\<close>

definition TalkingAnimation_init :: "'b \<Rightarrow> 'b talking_animation" where
  "TalkingAnimation_init super_init =
     \<lparr>base = super_init, is_talking = False, pushed = []\<rparr>"

text \<open>
  Modelled from the spec: \<open>FrameProcessor.push_frame\<close> is not in \<open>bot.py\<close>. The script calls
  it with the frame alone, and the spec has these frames go "downstream", so a push made
  without a direction is recorded as \<open>DOWNSTREAM\<close>.
\<close>

definition push_frame :: "frame \<Rightarrow> 'b talking_animation \<Rightarrow> 'b talking_animation" where
  "push_frame frame self = self\<lparr>pushed := pushed self @ [(frame, DOWNSTREAM)]\<rparr>"

text \<open>
  \<open>process_frame\<close> (lines 66 to 77). \<open>super().process_frame(frame, direction)\<close> is the base
  class's method, a parameter here that acts on the base class's fields; then the
  \<open>if\<close>/\<open>elif\<close> on the frame's class, then the unconditional push of the input frame.
\<close>

definition process_frame ::
  "('b \<Rightarrow> frame \<Rightarrow> frame_direction \<Rightarrow> 'b) \<Rightarrow> globals \<Rightarrow>
   'b talking_animation \<Rightarrow> frame \<Rightarrow> frame_direction \<Rightarrow> 'b talking_animation" where
  "process_frame super_process_frame g self frame direction =
     (let self1 = self\<lparr>base := super_process_frame (base self) frame direction\<rparr>;
          self2 =
            (if isinstance_AudioRawFrame frame then
               (if \<not> is_talking self1 then
                  (push_frame (talking_frame g) self1)\<lparr>is_talking := True\<rparr>
                else self1)
             else if isinstance_TTSStoppedFrame frame then
               (push_frame (quiet_frame g) self1)\<lparr>is_talking := False\<rparr>
             else self1)
      in push_frame frame self2)"

text \<open>The frames a call pushed: what \<open>pushed\<close> holds beyond what it held before the call.\<close>

definition emitted ::
  "'b talking_animation \<Rightarrow> 'b talking_animation \<Rightarrow> (frame \<times> frame_direction) list" where
  "emitted before after = drop (length (pushed before)) (pushed after)"

section \<open>Loading the sprites (lines 36 to 53)\<close>

subsection \<open>Exceptions\<close>

text \<open>
  An exception is a value: \<open>IndexError\<close> is what \<open>sprites[0]\<close> raises on an empty list,
  \<open>Raised\<close> is any exception raised by a call into a library, with its description. A
  computation that may raise returns \<open>exn + 'a\<close>, \<open>Inl\<close> the exception.
\<close>

datatype exn = IndexError | Raised string

subsection \<open>\<open>f"assets/robot0{i}.png"\<close> and \<open>os.path.join\<close>\<close>

definition digit_char :: "nat \<Rightarrow> char" where
  "digit_char d = ''0123456789'' ! d"

function str_nat :: "nat \<Rightarrow> string" where
  "str_nat n = (if n < 10 then [digit_char n] else str_nat (n div 10) @ [digit_char (n mod 10)])"
  by pat_completeness auto
termination
  by (relation "measure (\<lambda>n. n)") auto

declare str_nat.simps [simp del]

text \<open>Python's \<open>str\<close> of an \<open>int\<close>, which is what \<open>{i}\<close> in an f-string formats to.\<close>

definition str_int :: "int \<Rightarrow> string" where
  "str_int i = (if i < 0 then CHR ''-'' # str_nat (nat (- i)) else str_nat (nat i))"

definition asset_name :: "int \<Rightarrow> string" where
  "asset_name i = ''assets/robot0'' @ str_int i @ ''.png''"

text \<open>
  \<open>os.path.join\<close> of two components on POSIX: an absolute second component replaces the
  first; otherwise the two are joined by one \<open>/\<close>, unless the first is empty or already
  ends with one.
\<close>

definition os_path_join :: "string \<Rightarrow> string \<Rightarrow> string" where
  "os_path_join a b =
     (if b \<noteq> [] \<and> hd b = CHR ''/'' then b
      else if a = [] \<or> last a = CHR ''/'' then a @ b
      else a @ ''/'' @ b)"

subsection \<open>The loop\<close>

text \<open>What the script reads of an opened \<open>PIL.Image\<close>: \<open>tobytes()\<close>, \<open>size\<close> and \<open>format\<close>.\<close>

record pil_image =
  tobytes :: "8 word list"
  img_size :: "int \<times> int"
  img_format :: "string option"

definition image_frame_of :: "pil_image \<Rightarrow> image_raw_frame" where
  "image_frame_of img = \<lparr>image_f = tobytes img, size_f = img_size img, format_f = img_format img\<rparr>"

text \<open>
  The state the loop works on: the list \<open>sprites\<close> as it grows, and the paths handed to
  \<open>Image.open\<close> so far, in the order of the calls.
\<close>

record loading =
  sprites_so_far :: "image_raw_frame list"
  opened :: "string list"

text \<open>
  The body of \<open>for i in range(1, 26)\<close> (lines 40 to 46), run over the indices still to come.
  \<open>Image.open\<close> (with the reading of the opened image) is a parameter: the file system is
  outside the script. When it raises, the loop ends there with the exception and the state as
  it is at that moment; the script has no handler around it.
\<close>

fun load_loop ::
  "(string \<Rightarrow> exn + pil_image) \<Rightarrow> string \<Rightarrow> int list \<Rightarrow> loading \<Rightarrow> exn option \<times> loading" where
  "load_loop Image_open script_dir [] st = (None, st)"
| "load_loop Image_open script_dir (i # rest) st =
     (let full_path = os_path_join script_dir (asset_name i);
          st1 = st\<lparr>opened := opened st @ [full_path]\<rparr>
      in case Image_open full_path of
           Inl e \<Rightarrow> (Some e, st1)
         | Inr img \<Rightarrow>
             load_loop Image_open script_dir rest
               (st1\<lparr>sprites_so_far := sprites_so_far st1 @ [image_frame_of img]\<rparr>))"

text \<open>\<open>sprites = []\<close> (line 36), then the loop over \<open>range(1, 26)\<close>.\<close>

definition load_sprites :: "(string \<Rightarrow> exn + pil_image) \<Rightarrow> string \<Rightarrow> exn option \<times> loading" where
  "load_sprites Image_open script_dir =
     load_loop Image_open script_dir [1..25] \<lparr>sprites_so_far = [], opened = []\<rparr>"

text \<open>
  The module's top level from line 36 to line 53: the loop, \<open>flipped = sprites[::-1]\<close>,
  \<open>sprites.extend(flipped)\<close>, \<open>quiet_frame = sprites[0]\<close> (an \<open>IndexError\<close> on an empty
  list) and \<open>talking_frame = SpriteFrame(images=sprites)\<close>.
\<close>

definition module_init :: "(string \<Rightarrow> exn + pil_image) \<Rightarrow> string \<Rightarrow> exn + globals" where
  "module_init Image_open script_dir =
     (case load_sprites Image_open script_dir of
        (Some e, st) \<Rightarrow> Inl e
      | (None, st) \<Rightarrow>
          (let loaded = sprites_so_far st;
               flipped' = rev loaded;
               sprites' = loaded @ flipped'
           in case sprites' of
                [] \<Rightarrow> Inl IndexError
              | first # others \<Rightarrow>
                  Inr \<lparr>sprites = sprites', flipped = flipped',
                       quiet_frame = ImageRawFrame first,
                       talking_frame = SpriteFrame sprites'\<rparr>))"

text \<open>The 25 paths the loop is to open, one per index from 1 to 25, in index order.\<close>

definition asset_paths :: "string \<Rightarrow> string list" where
  "asset_paths script_dir = map (\<lambda>i. os_path_join script_dir (asset_name i)) [1..25]"

section \<open>\<open>main\<close> (lines 80 to 255) and the script's entry point\<close>

record daily_params =
  audio_out_enabled :: bool
  camera_out_enabled :: bool
  camera_out_width :: int
  camera_out_height :: int
  vad_enabled :: bool
  vad_analyzer :: string
  transcription_enabled :: bool

record daily_transport =
  room_url :: string
  token :: string
  bot_name :: string
  params :: daily_params

record 's elevenlabs_tts =
  aiohttp_session :: 's
  tts_api_key :: "string option"
  voice_id :: string

record openai_llm =
  llm_api_key :: "string option"
  model :: string

text \<open>
  The processors the script builds, by class; \<open>transport.input()\<close> and \<open>transport.output()\<close>
  are the two ends of the one transport.
\<close>

datatype ('s, 'b) processor =
    DailyTransport_input daily_transport
  | LLMUserResponseAggregator
  | OpenAILLMService openai_llm
  | ElevenLabsTTSService "'s elevenlabs_tts"
  | TalkingAnimation "'b talking_animation"
  | DailyTransport_output daily_transport
  | LLMAssistantResponseAggregator

record ('s, 'b) pipeline_task =
  task_pipeline :: "('s, 'b) processor list"
  allow_interruptions :: bool

text \<open>
  The calls the script makes into code outside itself, from the module's top level (lines 31
  to 34) and from \<open>main\<close> (lines 82 to 255), each with the arguments the script passes: the
  constructors of the framework's classes, \<open>transport.input()\<close> and \<open>transport.output()\<close>,
  \<open>task.queue_frame\<close>, the registration of the event handler, \<open>runner.run\<close>, and the exit
  of the \<open>async with\<close> block, which closes the session. \<open>Call_FrameProcessor_init\<close> is
  \<open>super().__init__()\<close> in \<open>TalkingAnimation()\<close>. Any of these calls may raise.
\<close>

datatype ('s, 'b) call =
    Call_load_dotenv bool
  | Call_logger_remove int
  | Call_logger_add string
  | Call_SileroVADAnalyzer
  | Call_DailyParams daily_params
  | Call_DailyTransport daily_transport
  | Call_ElevenLabsTTSService "'s elevenlabs_tts"
  | Call_OpenAILLMService openai_llm
  | Call_LLMUserResponseAggregator
  | Call_LLMAssistantResponseAggregator
  | Call_FrameProcessor_init
  | Call_transport_input daily_transport
  | Call_transport_output daily_transport
  | Call_Pipeline "('s, 'b) processor list"
  | Call_PipelineParams bool
  | Call_PipelineTask "('s, 'b) pipeline_task"
  | Call_queue_frame "('s, 'b) pipeline_task" frame
  | Call_event_handler string
  | Call_PipelineRunner
  | Call_runner_run "('s, 'b) pipeline_task"
  | Call_ClientSession_exit 's

text \<open>
  What the script takes from outside itself: \<open>Image.open\<close>, the directory of the script
  file, \<open>configure()\<close> of the \<open>runner\<close> module, the environment variables, entering
  \<open>aiohttp.ClientSession()\<close>, the fields the base class's \<open>__init__\<close> sets, and for each of
  the calls above whether it raises (\<open>Some\<close> the exception) or returns (\<open>None\<close>).
\<close>

record ('s, 'b) externals =
  Image_open :: "string \<Rightarrow> exn + pil_image"
  script_dir :: string
  configure :: "exn + (string \<times> string)"
  getenv :: "string \<Rightarrow> string option"
  ClientSession :: "exn + 's"
  FrameProcessor_init :: 'b
  raises :: "('s, 'b) call \<Rightarrow> exn option"

text \<open>The local variables of \<open>main\<close> up to line 245.\<close>

record ('s, 'b) main_locals =
  transport :: daily_transport
  tts :: "'s elevenlabs_tts"
  llm :: openai_llm
  messages :: "(string \<times> string) list"
  user_response :: "('s, 'b) processor"
  assistant_response :: "('s, 'b) processor"
  ta :: "'b talking_animation"
  pipeline :: "('s, 'b) processor list"
  task :: "('s, 'b) pipeline_task"

text \<open>
  The values lines 82 to 245 bind the locals to, inside the session, when each call that
  builds them returns. Whether a call returns is not decided here: the calls are listed, in
  the order the script makes them, by \<open>main_calls\<close> below, and \<open>main\<close> stops at the first
  that raises. The text of the system prompt (lines 143 to 216) is the parameter \<open>content\<close>.
\<close>

definition main_setup ::
  "('s, 'b) externals \<Rightarrow> string \<Rightarrow> string \<Rightarrow> string \<Rightarrow> 's \<Rightarrow> ('s, 'b) main_locals" where
  "main_setup ext content url tok session =
     (let transport' =
            \<lparr>room_url = url, token = tok, bot_name = ''Chatbot'',
             params = \<lparr>audio_out_enabled = True, camera_out_enabled = True,
                       camera_out_width = 1024, camera_out_height = 576,
                       vad_enabled = True, vad_analyzer = ''SileroVADAnalyzer'',
                       transcription_enabled = True\<rparr>\<rparr>;
          tts' = \<lparr>aiohttp_session = session, tts_api_key = getenv ext ''ELEVENLABS_API_KEY'',
                  voice_id = ''TX3LPaxmHKxFdv7VOQHJ''\<rparr>;
          llm' = \<lparr>llm_api_key = getenv ext ''OPENAI_API_KEY'', model = ''gpt-4o''\<rparr>;
          messages' = [(''system'', content)];
          user_response' = LLMUserResponseAggregator;
          assistant_response' = LLMAssistantResponseAggregator;
          ta' = TalkingAnimation_init (FrameProcessor_init ext);
          pipeline' =
            [DailyTransport_input transport',
             user_response',
             OpenAILLMService llm',
             ElevenLabsTTSService tts',
             TalkingAnimation ta',
             DailyTransport_output transport',
             assistant_response'];
          task' = \<lparr>task_pipeline = pipeline', allow_interruptions = True\<rparr>
      in \<lparr>transport = transport', tts = tts', llm = llm', messages = messages',
          user_response = user_response', assistant_response = assistant_response',
          ta = ta', pipeline = pipeline', task = task'\<rparr>)"

text \<open>
  The handler of lines 248 to 251, as what it does when the transport fires the event:
  capture the participant's transcription and queue one \<open>LLMMessagesFrame\<close> of the messages.
\<close>

definition on_first_participant_joined ::
  "('s, 'b) main_locals \<Rightarrow> string \<Rightarrow> string \<times> frame list" where
  "on_first_participant_joined l participant_id =
     (participant_id, [LLMMessagesFrame (messages l)])"

text \<open>
  Straight-line code that calls outside the script: the calls are made in order, and the
  first that raises ends the run with its exception. The second component is the list of the
  calls made, the raising one last: what has been done when the run ends.
\<close>

fun run_calls ::
  "('s, 'b) externals \<Rightarrow> ('s, 'b) call list \<Rightarrow> ('s, 'b) call list \<Rightarrow>
   (exn + unit) \<times> ('s, 'b) call list" where
  "run_calls ext [] made = (Inr (), made)"
| "run_calls ext (c # cs) made =
     (case raises ext c of
        Some e \<Rightarrow> (Inl e, made @ [c])
      | None \<Rightarrow> run_calls ext cs (made @ [c]))"

text \<open>
  The calls of the body of \<open>async with\<close> (lines 82 to 255), in the order Python evaluates
  them: an argument before the call it is passed to (\<open>SileroVADAnalyzer()\<close>, then
  \<open>DailyParams(...)\<close>, then \<open>DailyTransport(...)\<close>; \<open>transport.input()\<close> and
  \<open>transport.output()\<close>, then \<open>Pipeline([...])\<close>; \<open>PipelineParams(...)\<close>, then
  \<open>PipelineTask(...)\<close>), a statement before the next. \<open>os.getenv\<close> returns \<open>None\<close> for a
  variable that is not set and does not raise.
\<close>

definition main_calls ::
  "('s, 'b) externals \<Rightarrow> globals \<Rightarrow> string \<Rightarrow> string \<Rightarrow> string \<Rightarrow> 's \<Rightarrow> ('s, 'b) call list"
  where
  "main_calls ext g content url tok session =
     (let l = main_setup ext content url tok session
      in [Call_SileroVADAnalyzer,
          Call_DailyParams (params (transport l)),
          Call_DailyTransport (transport l),
          Call_ElevenLabsTTSService (tts l),
          Call_OpenAILLMService (llm l),
          Call_LLMUserResponseAggregator,
          Call_LLMAssistantResponseAggregator,
          Call_FrameProcessor_init,
          Call_transport_input (transport l),
          Call_transport_output (transport l),
          Call_Pipeline (pipeline l),
          Call_PipelineParams True,
          Call_PipelineTask (task l),
          Call_queue_frame (task l) (quiet_frame g),
          Call_event_handler ''on_first_participant_joined'',
          Call_PipelineRunner,
          Call_runner_run (task l)])"

text \<open>
  \<open>main\<close> (lines 80 to 255): enter the session, then run the body. There is no \<open>try\<close> in it.
  When entering the session raises, nothing else is done. Otherwise the body runs up to its
  first call that raises, and the \<open>async with\<close> block is left through the session's exit,
  which closes the session and returns \<open>None\<close>, so that it swallows no exception; if the
  closing itself raises, that exception is the one that leaves \<open>main\<close>. The result is what
  \<open>main\<close> returns or raises, with the calls made inside the session.
\<close>

definition main ::
  "('s, 'b) externals \<Rightarrow> globals \<Rightarrow> string \<Rightarrow> string \<Rightarrow> string \<Rightarrow>
   (exn + unit) \<times> ('s, 'b) call list" where
  "main ext g content url tok =
     (case ClientSession ext of
        Inl e \<Rightarrow> (Inl e, [])
      | Inr session \<Rightarrow>
          (case run_calls ext (main_calls ext g content url tok session) [] of
             (r, made) \<Rightarrow>
               (case raises ext (Call_ClientSession_exit session) of
                  Some e \<Rightarrow> (Inl e, made @ [Call_ClientSession_exit session])
                | None \<Rightarrow> (r, made @ [Call_ClientSession_exit session]))))"

text \<open>
  The calls of the module's top level before the sprites are loaded (lines 31 to 34):
  \<open>load_dotenv(override=True)\<close>, \<open>logger.remove(0)\<close> and
  \<open>logger.add(sys.stderr, level="DEBUG")\<close>. The imports of lines 1 to 30 are taken to have
  succeeded.
\<close>

definition module_calls :: "('s, 'b) call list" where
  "module_calls = [Call_load_dotenv True, Call_logger_remove 0, Call_logger_add ''DEBUG'']"

text \<open>
  The script run as a program: the module's top level (lines 31 to 53), then lines 258 to 260,
  \<open>(url, token) = configure()\<close> and \<open>asyncio.run(main(url, token))\<close>, which returns what
  \<open>main\<close> returns and raises what it raises. The result is what reaches the process boundary.
\<close>

definition script :: "('s, 'b) externals \<Rightarrow> string \<Rightarrow> exn + unit" where
  "script ext content =
     (case run_calls ext module_calls [] of
        (Inl e, made) \<Rightarrow> Inl e
      | (Inr u, made) \<Rightarrow>
          (case module_init (Image_open ext) (script_dir ext) of
             Inl e \<Rightarrow> Inl e
           | Inr g \<Rightarrow>
               (case configure ext of
                  Inl e \<Rightarrow> Inl e
                | Inr (url, tok) \<Rightarrow> fst (main ext g content url tok))))"

text \<open>The class of a processor, for reading a pipeline stage by stage.\<close>

datatype stage =
    Transport_input | User_aggregator | LLM_service | TTS_service
  | Talking_animation | Transport_output | Assistant_aggregator

fun stage_of :: "('s, 'b) processor \<Rightarrow> stage" where
  "stage_of (DailyTransport_input t) = Transport_input"
| "stage_of LLMUserResponseAggregator = User_aggregator"
| "stage_of (OpenAILLMService c) = LLM_service"
| "stage_of (ElevenLabsTTSService c) = TTS_service"
| "stage_of (TalkingAnimation a) = Talking_animation"
| "stage_of (DailyTransport_output t) = Transport_output"
| "stage_of LLMAssistantResponseAggregator = Assistant_aggregator"

section \<open>An example environment\<close>

text \<open>
  An environment in which the script runs to its end, for evaluating it on concrete inputs:
  every asset opens as an empty PNG whose width is the length of its path, the script lies in
  \<open>/bot\<close>, both API keys are set, and every call returns, except that
  \<open>OpenAILLMService\<close> raises when it is given no key.
\<close>

definition example_externals :: "(unit, unit) externals" where
  "example_externals =
     \<lparr>Image_open = (\<lambda>p. Inr \<lparr>tobytes = [], img_size = (int (length p), 576),
                                img_format = Some ''PNG''\<rparr>),
      script_dir = ''/bot'',
      configure = Inr (''https://example.daily.co/room'', ''token''),
      getenv = (\<lambda>name. Some ''key''),
      ClientSession = Inr (),
      FrameProcessor_init = (),
      raises = (\<lambda>c. case c of
                  Call_OpenAILLMService cfg \<Rightarrow>
                    (if llm_api_key cfg = None then Some (Raised ''OpenAIError'') else None)
                | _ \<Rightarrow> None)\<rparr>"

text \<open>
  Variations of the example environment in which one step fails: the third asset is missing;
  the client session cannot be entered; no API key is set, so that \<open>OpenAILLMService\<close>
  raises; the run of the pipeline raises. And the globals the module binds in the example
  environment.
\<close>

abbreviation example_missing_asset :: "(unit, unit) externals" where
  "example_missing_asset \<equiv>
     example_externals\<lparr>Image_open :=
       (\<lambda>p. if p = ''/bot/assets/robot03.png'' then Inl (Raised ''FileNotFoundError'')
            else Image_open example_externals p)\<rparr>"

abbreviation example_no_session :: "(unit, unit) externals" where
  "example_no_session \<equiv>
     example_externals\<lparr>ClientSession := Inl (Raised ''ClientConnectorError'')\<rparr>"

abbreviation example_no_key :: "(unit, unit) externals" where
  "example_no_key \<equiv> example_externals\<lparr>getenv := (\<lambda>name. None)\<rparr>"

abbreviation example_run_fails :: "(unit, unit) externals" where
  "example_run_fails \<equiv>
     example_externals\<lparr>raises :=
       (\<lambda>c. case c of Call_runner_run t \<Rightarrow> Some (Raised ''CancelledError'') | _ \<Rightarrow> None)\<rparr>"

abbreviation example_loaded_globals :: globals where
  "example_loaded_globals \<equiv>
     \<lparr>sprites = replicate 9 \<lparr>image_f = [], size_f = (23, 576), format_f = Some ''PNG''\<rparr> @ replicate 16 \<lparr>image_f = [], size_f = (24, 576), format_f = Some ''PNG''\<rparr> @ replicate 16 \<lparr>image_f = [], size_f = (24, 576), format_f = Some ''PNG''\<rparr> @ replicate 9 \<lparr>image_f = [], size_f = (23, 576), format_f = Some ''PNG''\<rparr>,
      flipped = replicate 16 \<lparr>image_f = [], size_f = (24, 576), format_f = Some ''PNG''\<rparr> @ replicate 9 \<lparr>image_f = [], size_f = (23, 576), format_f = Some ''PNG''\<rparr>,
      quiet_frame = ImageRawFrame \<lparr>image_f = [], size_f = (23, 576), format_f = Some ''PNG''\<rparr>,
      talking_frame =
        SpriteFrame (replicate 9 \<lparr>image_f = [], size_f = (23, 576), format_f = Some ''PNG''\<rparr> @ replicate 16 \<lparr>image_f = [], size_f = (24, 576), format_f = Some ''PNG''\<rparr> @ replicate 16 \<lparr>image_f = [], size_f = (24, 576), format_f = Some ''PNG''\<rparr> @ replicate 9 \<lparr>image_f = [], size_f = (23, 576), format_f = Some ''PNG''\<rparr>)\<rparr>"

abbreviation example_url :: string where
  "example_url \<equiv> ''https://example.daily.co/room''"

text \<open>
  Globals of the shape the module binds, for a single keyframe: the keyframe and its
  reverse, the first sprite as \<open>quiet_frame\<close>, the whole list as \<open>talking_frame\<close>.
\<close>

abbreviation example_image :: image_raw_frame where
  "example_image \<equiv> \<lparr>image_f = [], size_f = (1024, 576), format_f = Some ''PNG''\<rparr>"

abbreviation example_globals :: globals where
  "example_globals \<equiv>
     \<lparr>sprites = [example_image, example_image], flipped = [example_image],
      quiet_frame = ImageRawFrame example_image,
      talking_frame = SpriteFrame [example_image, example_image]\<rparr>"

section \<open>Properties of \<open>TalkingAnimation.process_frame\<close>\<close>

lemma pushed_process_frame:
  "pushed (process_frame sp g self frame direction) =
     pushed self @
       (if isinstance_AudioRawFrame frame \<and> \<not> is_talking self
          then [(talking_frame g, DOWNSTREAM)]
        else if \<not> isinstance_AudioRawFrame frame \<and> isinstance_TTSStoppedFrame frame
          then [(quiet_frame g, DOWNSTREAM)]
        else []) @ [(frame, DOWNSTREAM)]"
  by (simp add: process_frame_def push_frame_def Let_def)

lemma is_talking_process_frame:
  "is_talking (process_frame sp g self frame direction) =
     (if isinstance_AudioRawFrame frame then True
      else if isinstance_TTSStoppedFrame frame then False
      else is_talking self)"
  by (simp add: process_frame_def push_frame_def Let_def)

lemma emitted_process_frame:
  "emitted self (process_frame sp g self frame direction) =
       (if isinstance_AudioRawFrame frame \<and> \<not> is_talking self
          then [(talking_frame g, DOWNSTREAM)]
        else if \<not> isinstance_AudioRawFrame frame \<and> isinstance_TTSStoppedFrame frame
          then [(quiet_frame g, DOWNSTREAM)]
        else []) @ [(frame, DOWNSTREAM)]"
  by (simp add: emitted_def pushed_process_frame)

text \<open>
  C1. An \<open>AudioRawFrame\<close> received while \<open>_is_talking\<close> is false makes the processor push
  \<open>talking_frame\<close> (and then the input frame) and set \<open>_is_talking\<close> to true. An
  \<open>AudioRawFrame\<close> received while \<open>_is_talking\<close> is true pushes the input frame only: no
  sprite frame is among the frames of that call.
\<close>

theorem audio_frame_starts_talking:
  assumes "isinstance_AudioRawFrame frame"
  shows "(\<not> is_talking self \<longrightarrow>
            emitted self (process_frame sp g self frame direction) =
              [(talking_frame g, DOWNSTREAM), (frame, DOWNSTREAM)]
          \<and> is_talking (process_frame sp g self frame direction))
       \<and> (is_talking self \<longrightarrow>
            emitted self (process_frame sp g self frame direction) = [(frame, DOWNSTREAM)]
          \<and> (\<forall>(f, d) \<in> set (emitted self (process_frame sp g self frame direction)).
                \<not> isinstance_SpriteFrame f))"
  using assms by (cases frame) (simp_all add: emitted_process_frame is_talking_process_frame)

theorem audio_frame_starts_talking_witness:
  "isinstance_AudioRawFrame (AudioRawFrame [1, 2] 16000 1)
   \<and> \<not> is_talking (TalkingAnimation_init ())
   \<and> emitted (TalkingAnimation_init ())
       (process_frame (\<lambda>b f d. b)
          example_globals
          (TalkingAnimation_init ()) (AudioRawFrame [1, 2] 16000 1) DOWNSTREAM)
     = [(talking_frame example_globals, DOWNSTREAM), (AudioRawFrame [1, 2] 16000 1, DOWNSTREAM)]
   \<and> is_talking ((TalkingAnimation_init ())\<lparr>is_talking := True\<rparr>)
   \<and> emitted ((TalkingAnimation_init ())\<lparr>is_talking := True\<rparr>)
       (process_frame (\<lambda>b f d. b)
          example_globals
          ((TalkingAnimation_init ())\<lparr>is_talking := True\<rparr>)
          (AudioRawFrame [1, 2] 16000 1) DOWNSTREAM)
     = [(AudioRawFrame [1, 2] 16000 1, DOWNSTREAM)]"
  using audio_frame_starts_talking
          [of "AudioRawFrame [1, 2] 16000 1" "TalkingAnimation_init ()" "\<lambda>b f d. b"
              "example_globals" DOWNSTREAM]
        audio_frame_starts_talking
          [of "AudioRawFrame [1, 2] 16000 1" "(TalkingAnimation_init ())\<lparr>is_talking := True\<rparr>"
              "\<lambda>b f d. b"
              "example_globals" DOWNSTREAM]
  by (simp add: TalkingAnimation_init_def)

text \<open>
  C2. A \<open>TTSStoppedFrame\<close> makes the processor push \<open>quiet_frame\<close> (and then the input
  frame) and set \<open>_is_talking\<close> to false, whatever the flag was.
\<close>

theorem tts_stopped_frame_goes_quiet:
  assumes "isinstance_TTSStoppedFrame frame"
  shows "emitted self (process_frame sp g self frame direction) =
           [(quiet_frame g, DOWNSTREAM), (frame, DOWNSTREAM)]
       \<and> \<not> is_talking (process_frame sp g self frame direction)"
  using assms by (cases frame) (simp_all add: emitted_process_frame is_talking_process_frame)

theorem tts_stopped_frame_goes_quiet_witness:
  "isinstance_TTSStoppedFrame TTSStoppedFrame
   \<and> emitted \<lparr>base = (), is_talking = True, pushed = [(OtherFrame ''StartFrame'', DOWNSTREAM)]\<rparr>
       (process_frame (\<lambda>b f d. b)
          example_globals
          \<lparr>base = (), is_talking = True, pushed = [(OtherFrame ''StartFrame'', DOWNSTREAM)]\<rparr>
          TTSStoppedFrame DOWNSTREAM)
     = [(quiet_frame example_globals, DOWNSTREAM), (TTSStoppedFrame, DOWNSTREAM)]
   \<and> \<not> is_talking
       (process_frame (\<lambda>b f d. b)
          example_globals
          \<lparr>base = (), is_talking = True, pushed = [(OtherFrame ''StartFrame'', DOWNSTREAM)]\<rparr>
          TTSStoppedFrame DOWNSTREAM)"
  using tts_stopped_frame_goes_quiet
          [of TTSStoppedFrame
              "\<lparr>base = (), is_talking = True, pushed = [(OtherFrame ''StartFrame'', DOWNSTREAM)]\<rparr>"
              "\<lambda>b f d. b"
              "example_globals" DOWNSTREAM]
  by simp

text \<open>
  C3. Whatever the input frame is, the call pushes that very frame downstream, and it is the
  last frame the call pushes: before it comes nothing, or the one sprite frame
  (\<open>talking_frame\<close> or \<open>quiet_frame\<close>) the call emitted.
\<close>

theorem input_frame_forwarded_last:
  "\<exists>before.
      emitted self (process_frame sp g self frame direction) = before @ [(frame, DOWNSTREAM)]
    \<and> pushed (process_frame sp g self frame direction)
        = pushed self @ before @ [(frame, DOWNSTREAM)]
    \<and> (before = [] \<or> before = [(talking_frame g, DOWNSTREAM)]
        \<or> before = [(quiet_frame g, DOWNSTREAM)])"
  by (simp add: emitted_process_frame pushed_process_frame)

text \<open>
  C8. An \<open>AudioRawFrame\<close> processed while \<open>_is_talking\<close> is true pushes exactly one frame, the
  input itself, and leaves the flag as it was. So two \<open>AudioRawFrame\<close>s in a row, from the
  state \<open>__init__\<close> leaves, push \<open>talking_frame\<close>, the first and the second input, in that
  order: the talking sprite frame occurs once among them.
\<close>

theorem audio_frame_while_talking_idempotent:
  assumes "isinstance_AudioRawFrame frame1" and "isinstance_AudioRawFrame frame2"
  shows "(is_talking self \<longrightarrow>
            emitted self (process_frame sp g self frame1 d1) = [(frame1, DOWNSTREAM)]
          \<and> is_talking (process_frame sp g self frame1 d1) = is_talking self)
       \<and> pushed (process_frame sp g
                   (process_frame sp g (TalkingAnimation_init b) frame1 d1) frame2 d2)
           = [(talking_frame g, DOWNSTREAM), (frame1, DOWNSTREAM), (frame2, DOWNSTREAM)]
       \<and> (isinstance_SpriteFrame (talking_frame g) \<longrightarrow>
            count_list
              (map fst (pushed (process_frame sp g
                   (process_frame sp g (TalkingAnimation_init b) frame1 d1) frame2 d2)))
              (talking_frame g) = 1)"
proof -
  have neq: "isinstance_SpriteFrame (talking_frame g) \<Longrightarrow>
               frame1 \<noteq> talking_frame g \<and> frame2 \<noteq> talking_frame g"
    using assms by (cases frame1; cases frame2; cases "talking_frame g") auto
  have first: "is_talking (process_frame sp g (TalkingAnimation_init b) frame1 d1)"
    using assms(1) by (simp add: is_talking_process_frame)
  have seq: "pushed (process_frame sp g
                   (process_frame sp g (TalkingAnimation_init b) frame1 d1) frame2 d2)
           = [(talking_frame g, DOWNSTREAM), (frame1, DOWNSTREAM), (frame2, DOWNSTREAM)]"
    using assms first by (simp add: pushed_process_frame TalkingAnimation_init_def)
  show ?thesis
    using assms neq seq by (simp add: emitted_process_frame is_talking_process_frame)
qed

theorem audio_frame_while_talking_idempotent_witness:
  "isinstance_AudioRawFrame (AudioRawFrame [1] 16000 1)
   \<and> isinstance_AudioRawFrame (AudioRawFrame [2] 16000 1)
   \<and> isinstance_SpriteFrame (talking_frame example_globals)
   \<and> pushed (process_frame (\<lambda>b f d. b)
               example_globals
               (process_frame (\<lambda>b f d. b)
                  example_globals
                  (TalkingAnimation_init ()) (AudioRawFrame [1] 16000 1) DOWNSTREAM)
               (AudioRawFrame [2] 16000 1) DOWNSTREAM)
       = [(talking_frame example_globals, DOWNSTREAM), (AudioRawFrame [1] 16000 1, DOWNSTREAM),
          (AudioRawFrame [2] 16000 1, DOWNSTREAM)]
   \<and> count_list
       (map fst (pushed (process_frame (\<lambda>b f d. b)
               example_globals
               (process_frame (\<lambda>b f d. b)
                  example_globals
                  (TalkingAnimation_init ()) (AudioRawFrame [1] 16000 1) DOWNSTREAM)
               (AudioRawFrame [2] 16000 1) DOWNSTREAM)))
       (talking_frame example_globals) = 1
   \<and> is_talking \<lparr>base = (), is_talking = True, pushed = []\<rparr>
   \<and> emitted \<lparr>base = (), is_talking = True, pushed = []\<rparr>
       (process_frame (\<lambda>b f d. b)
          example_globals
          \<lparr>base = (), is_talking = True, pushed = []\<rparr> (AudioRawFrame [1] 16000 1) DOWNSTREAM)
       = [(AudioRawFrame [1] 16000 1, DOWNSTREAM)]"
  using audio_frame_while_talking_idempotent
          [of "AudioRawFrame [1] 16000 1" "AudioRawFrame [2] 16000 1"
              "\<lparr>base = (), is_talking = True, pushed = []\<rparr>" "\<lambda>b f d. b"
              "example_globals" DOWNSTREAM "()" DOWNSTREAM]
  by simp

text \<open>
  C9. The quiet branch does not look at the flag: a \<open>TTSStoppedFrame\<close> received while
  \<open>_is_talking\<close> is already false still pushes \<open>quiet_frame\<close>, and so does a second
  \<open>TTSStoppedFrame\<close> right after it.
\<close>

theorem tts_stopped_frame_unguarded:
  assumes "isinstance_TTSStoppedFrame frame" and "\<not> is_talking self"
  shows "emitted self (process_frame sp g self frame direction) =
           [(quiet_frame g, DOWNSTREAM), (frame, DOWNSTREAM)]
       \<and> (isinstance_TTSStoppedFrame frame2 \<longrightarrow>
            emitted (process_frame sp g self frame direction)
              (process_frame sp g (process_frame sp g self frame direction) frame2 d2) =
              [(quiet_frame g, DOWNSTREAM), (frame2, DOWNSTREAM)])"
  using assms
  by (cases frame; cases frame2) (simp_all add: emitted_process_frame)

theorem tts_stopped_frame_unguarded_witness:
  "isinstance_TTSStoppedFrame TTSStoppedFrame
   \<and> \<not> is_talking (TalkingAnimation_init ())
   \<and> emitted (TalkingAnimation_init ())
       (process_frame (\<lambda>b f d. b)
          example_globals
          (TalkingAnimation_init ()) TTSStoppedFrame DOWNSTREAM)
     = [(quiet_frame example_globals, DOWNSTREAM), (TTSStoppedFrame, DOWNSTREAM)]
   \<and> emitted
       (process_frame (\<lambda>b f d. b)
          example_globals
          (TalkingAnimation_init ()) TTSStoppedFrame DOWNSTREAM)
       (process_frame (\<lambda>b f d. b)
          example_globals
          (process_frame (\<lambda>b f d. b)
             example_globals
             (TalkingAnimation_init ()) TTSStoppedFrame DOWNSTREAM)
          TTSStoppedFrame DOWNSTREAM)
     = [(quiet_frame example_globals, DOWNSTREAM), (TTSStoppedFrame, DOWNSTREAM)]"
  using tts_stopped_frame_unguarded
          [of TTSStoppedFrame "TalkingAnimation_init ()" "\<lambda>b f d. b"
              "example_globals" DOWNSTREAM TTSStoppedFrame DOWNSTREAM]
  by (simp add: TalkingAnimation_init_def)

text \<open>
  C10. A frame that is neither an \<open>AudioRawFrame\<close> nor a \<open>TTSStoppedFrame\<close> leaves
  \<open>_is_talking\<close> as it was and makes the call push exactly one frame, the input itself.
\<close>

theorem other_frame_passes_through:
  assumes "\<not> isinstance_AudioRawFrame frame" and "\<not> isinstance_TTSStoppedFrame frame"
  shows "is_talking (process_frame sp g self frame direction) = is_talking self
       \<and> emitted self (process_frame sp g self frame direction) = [(frame, DOWNSTREAM)]
       \<and> length (emitted self (process_frame sp g self frame direction)) = 1"
  using assms by (simp add: emitted_process_frame is_talking_process_frame)

theorem other_frame_passes_through_witness:
  "\<not> isinstance_AudioRawFrame (LLMMessagesFrame [(''system'', ''hello'')])
   \<and> \<not> isinstance_TTSStoppedFrame (LLMMessagesFrame [(''system'', ''hello'')])
   \<and> is_talking
       (process_frame (\<lambda>b f d. b)
          example_globals
          \<lparr>base = (), is_talking = True, pushed = []\<rparr>
          (LLMMessagesFrame [(''system'', ''hello'')]) UPSTREAM)
   \<and> emitted \<lparr>base = (), is_talking = True, pushed = []\<rparr>
       (process_frame (\<lambda>b f d. b)
          example_globals
          \<lparr>base = (), is_talking = True, pushed = []\<rparr>
          (LLMMessagesFrame [(''system'', ''hello'')]) UPSTREAM)
     = [(LLMMessagesFrame [(''system'', ''hello'')], DOWNSTREAM)]"
  using other_frame_passes_through
          [of "LLMMessagesFrame [(''system'', ''hello'')]" "\<lambda>b f d. b"
              "example_globals"
              "\<lparr>base = (), is_talking = True, pushed = []\<rparr>" UPSTREAM]
  by simp

section \<open>Properties of the sprite loading\<close>

text \<open>
  The loop over any list of indices. When it ends without an exception it has opened the path
  of every index, in order, and appended the frame of each opened image. When it ends with an
  exception, the index that raised is the first to fail: the paths up to it have been
  opened, and the frames of the images before it are in the list.
\<close>

lemma load_loop_None:
  "load_loop io dir idxs st = (None, st') \<Longrightarrow>
     opened st' = opened st @ map (\<lambda>i. os_path_join dir (asset_name i)) idxs
   \<and> (\<exists>new. sprites_so_far st' = sprites_so_far st @ new
         \<and> list_all2 (\<lambda>p f. \<exists>img. io p = Inr img \<and> f = image_frame_of img)
              (map (\<lambda>i. os_path_join dir (asset_name i)) idxs) new)"
proof (induction idxs arbitrary: st)
  case Nil
  then show ?case by simp
next
  case (Cons i rest)
  show ?case
  proof (cases "io (os_path_join dir (asset_name i))")
    case (Inl e)
    with Cons.prems show ?thesis by (simp add: Let_def)
  next
    case (Inr img)
    let ?st2 = "st\<lparr>opened := opened st @ [os_path_join dir (asset_name i)],
                    sprites_so_far := sprites_so_far st @ [image_frame_of img]\<rparr>"
    from Cons.prems Inr have "load_loop io dir rest ?st2 = (None, st')"
      by (simp add: Let_def)
    from Cons.IH [OF this] Inr show ?thesis by auto
  qed
qed

lemma load_loop_completes:
  "\<forall>i \<in> set idxs. \<exists>img. io (os_path_join dir (asset_name i)) = Inr img \<Longrightarrow>
     \<exists>st'. load_loop io dir idxs st = (None, st')"
proof (induction idxs arbitrary: st)
  case Nil
  then show ?case by simp
next
  case (Cons i rest)
  then obtain img where "io (os_path_join dir (asset_name i)) = Inr img" by auto
  moreover have "\<forall>i \<in> set rest. \<exists>img. io (os_path_join dir (asset_name i)) = Inr img"
    using Cons.prems by simp
  ultimately show ?case using Cons.IH by (simp add: Let_def)
qed

lemma load_loop_Some:
  "load_loop io dir idxs st = (Some e, st') \<Longrightarrow>
     \<exists>done i. (\<exists>later. idxs = done @ i # later)
       \<and> io (os_path_join dir (asset_name i)) = Inl e
       \<and> opened st' = opened st @ map (\<lambda>i. os_path_join dir (asset_name i)) (done @ [i])
       \<and> (\<exists>new. sprites_so_far st' = sprites_so_far st @ new
           \<and> list_all2 (\<lambda>p f. \<exists>img. io p = Inr img \<and> f = image_frame_of img)
                (map (\<lambda>i. os_path_join dir (asset_name i)) done) new)"
proof (induction idxs arbitrary: st)
  case Nil
  then show ?case by simp
next
  case (Cons i rest)
  show ?case
  proof (cases "io (os_path_join dir (asset_name i))")
    case (Inl e')
    with Cons.prems have "e' = e" and "st' = st\<lparr>opened := opened st @ [os_path_join dir (asset_name i)]\<rparr>"
      by (simp_all add: Let_def)
    with Inl show ?thesis
      by (intro exI [of _ "[]"] exI [of _ i]) simp
  next
    case (Inr img)
    let ?st2 = "st\<lparr>opened := opened st @ [os_path_join dir (asset_name i)],
                    sprites_so_far := sprites_so_far st @ [image_frame_of img]\<rparr>"
    from Cons.prems Inr have "load_loop io dir rest ?st2 = (Some e, st')"
      by (simp add: Let_def)
    from Cons.IH [OF this] obtain done' j new where
      h: "\<exists>later. rest = done' @ j # later" "io (os_path_join dir (asset_name j)) = Inl e"
         "opened st' = opened ?st2 @ map (\<lambda>i. os_path_join dir (asset_name i)) (done' @ [j])"
         "sprites_so_far st' = sprites_so_far ?st2 @ new"
         "list_all2 (\<lambda>p f. \<exists>img. io p = Inr img \<and> f = image_frame_of img)
                (map (\<lambda>i. os_path_join dir (asset_name i)) done') new"
      by blast
    show ?thesis
      using h Inr
      by (intro exI [of _ "i # done'"] exI [of _ j]) auto
  qed
qed

lemma asset_names_eval:
  "map asset_name [1..25] = [''assets/robot01.png'', ''assets/robot02.png'', ''assets/robot03.png'', ''assets/robot04.png'', ''assets/robot05.png'', ''assets/robot06.png'', ''assets/robot07.png'', ''assets/robot08.png'', ''assets/robot09.png'', ''assets/robot010.png'', ''assets/robot011.png'', ''assets/robot012.png'', ''assets/robot013.png'', ''assets/robot014.png'', ''assets/robot015.png'', ''assets/robot016.png'', ''assets/robot017.png'', ''assets/robot018.png'', ''assets/robot019.png'', ''assets/robot020.png'', ''assets/robot021.png'', ''assets/robot022.png'', ''assets/robot023.png'', ''assets/robot024.png'', ''assets/robot025.png'']"
  by code_simp

lemma os_path_join_relative:
  "b \<noteq> [] \<Longrightarrow> hd b \<noteq> CHR ''/'' \<Longrightarrow>
     os_path_join a b = (if a = [] \<or> last a = CHR ''/'' then a else a @ ''/'') @ b"
  by (simp add: os_path_join_def)

lemma asset_paths_eval:
  "asset_paths dir = map (os_path_join dir) [''assets/robot01.png'', ''assets/robot02.png'', ''assets/robot03.png'', ''assets/robot04.png'', ''assets/robot05.png'', ''assets/robot06.png'', ''assets/robot07.png'', ''assets/robot08.png'', ''assets/robot09.png'', ''assets/robot010.png'', ''assets/robot011.png'', ''assets/robot012.png'', ''assets/robot013.png'', ''assets/robot014.png'', ''assets/robot015.png'', ''assets/robot016.png'', ''assets/robot017.png'', ''assets/robot018.png'', ''assets/robot019.png'', ''assets/robot020.png'', ''assets/robot021.png'', ''assets/robot022.png'', ''assets/robot023.png'', ''assets/robot024.png'', ''assets/robot025.png'']"
proof -
  have "asset_paths dir = map (os_path_join dir) (map asset_name [1..25])"
    by (simp add: asset_paths_def comp_def)
  then show ?thesis by (simp only: asset_names_eval)
qed

lemma asset_paths_prefixed:
  "asset_paths dir =
     map ((@) (if dir = [] \<or> last dir = CHR ''/'' then dir else dir @ ''/''))
       [''assets/robot01.png'', ''assets/robot02.png'', ''assets/robot03.png'', ''assets/robot04.png'', ''assets/robot05.png'', ''assets/robot06.png'', ''assets/robot07.png'', ''assets/robot08.png'', ''assets/robot09.png'', ''assets/robot010.png'', ''assets/robot011.png'', ''assets/robot012.png'', ''assets/robot013.png'', ''assets/robot014.png'', ''assets/robot015.png'', ''assets/robot016.png'', ''assets/robot017.png'', ''assets/robot018.png'', ''assets/robot019.png'', ''assets/robot020.png'', ''assets/robot021.png'', ''assets/robot022.png'', ''assets/robot023.png'', ''assets/robot024.png'', ''assets/robot025.png'']"
  unfolding asset_paths_eval by (simp add: os_path_join_relative)

lemma length_asset_paths: "length (asset_paths dir) = 25"
  by (simp add: asset_paths_def)

lemma distinct_asset_paths: "distinct (asset_paths dir)"
  unfolding asset_paths_prefixed by (simp add: distinct_map inj_on_def)

text \<open>The example environment, evaluated: a complete load, the globals it gives, and a load
  that fails at the third asset.\<close>

lemma example_load_sprites:
  "load_sprites (Image_open example_externals) (script_dir example_externals) =
     (None, \<lparr>sprites_so_far = replicate 9 \<lparr>image_f = [], size_f = (23, 576), format_f = Some ''PNG''\<rparr> @ replicate 16 \<lparr>image_f = [], size_f = (24, 576), format_f = Some ''PNG''\<rparr>,
        opened = [''/bot/assets/robot01.png'', ''/bot/assets/robot02.png'', ''/bot/assets/robot03.png'', ''/bot/assets/robot04.png'', ''/bot/assets/robot05.png'', ''/bot/assets/robot06.png'', ''/bot/assets/robot07.png'', ''/bot/assets/robot08.png'', ''/bot/assets/robot09.png'', ''/bot/assets/robot010.png'', ''/bot/assets/robot011.png'', ''/bot/assets/robot012.png'', ''/bot/assets/robot013.png'', ''/bot/assets/robot014.png'', ''/bot/assets/robot015.png'', ''/bot/assets/robot016.png'', ''/bot/assets/robot017.png'', ''/bot/assets/robot018.png'', ''/bot/assets/robot019.png'', ''/bot/assets/robot020.png'', ''/bot/assets/robot021.png'', ''/bot/assets/robot022.png'', ''/bot/assets/robot023.png'', ''/bot/assets/robot024.png'', ''/bot/assets/robot025.png'']\<rparr>)"
  unfolding example_externals_def by code_simp

lemma example_module_init:
  "module_init (Image_open example_externals) (script_dir example_externals) = Inr \<lparr>sprites = (replicate 9 \<lparr>image_f = [], size_f = (23, 576), format_f = Some ''PNG''\<rparr> @ replicate 16 \<lparr>image_f = [], size_f = (24, 576), format_f = Some ''PNG''\<rparr> @ replicate 16 \<lparr>image_f = [], size_f = (24, 576), format_f = Some ''PNG''\<rparr> @ replicate 9 \<lparr>image_f = [], size_f = (23, 576), format_f = Some ''PNG''\<rparr>),
       flipped = replicate 16 \<lparr>image_f = [], size_f = (24, 576), format_f = Some ''PNG''\<rparr> @ replicate 9 \<lparr>image_f = [], size_f = (23, 576), format_f = Some ''PNG''\<rparr>,
       quiet_frame = ImageRawFrame \<lparr>image_f = [], size_f = (23, 576), format_f = Some ''PNG''\<rparr>,
       talking_frame = SpriteFrame (replicate 9 \<lparr>image_f = [], size_f = (23, 576), format_f = Some ''PNG''\<rparr> @ replicate 16 \<lparr>image_f = [], size_f = (24, 576), format_f = Some ''PNG''\<rparr> @ replicate 16 \<lparr>image_f = [], size_f = (24, 576), format_f = Some ''PNG''\<rparr> @ replicate 9 \<lparr>image_f = [], size_f = (23, 576), format_f = Some ''PNG''\<rparr>)\<rparr>"
  unfolding example_externals_def by code_simp

lemma example_load_failure:
  "load_sprites (Image_open (example_externals\<lparr>Image_open := (\<lambda>p. if p = ''/bot/assets/robot03.png'' then Inl (Raised ''FileNotFoundError'') else Image_open example_externals p)\<rparr>)) (script_dir (example_externals\<lparr>Image_open := (\<lambda>p. if p = ''/bot/assets/robot03.png'' then Inl (Raised ''FileNotFoundError'') else Image_open example_externals p)\<rparr>)) = (Some (Raised ''FileNotFoundError''), \<lparr>sprites_so_far = [\<lparr>image_f = [], size_f = (23, 576), format_f = Some ''PNG''\<rparr>, \<lparr>image_f = [], size_f = (23, 576), format_f = Some ''PNG''\<rparr>], opened = [''/bot/assets/robot01.png'', ''/bot/assets/robot02.png'', ''/bot/assets/robot03.png'']\<rparr>)"
  unfolding example_externals_def by code_simp

text \<open>
  C5. When the loading loop has completed, the module goes on to bind its globals, and
  \<open>sprites\<close> is then the sequence of loaded keyframes followed by the reverse of that same
  sequence: 25 keyframes, 50 sprites, the same read forwards and backwards.
\<close>

theorem sprites_are_keyframes_then_reverse:
  assumes "load_sprites io dir = (None, st)"
  shows "\<exists>g. module_init io dir = Inr g
           \<and> sprites g = sprites_so_far st @ rev (sprites_so_far st)
           \<and> flipped g = rev (sprites_so_far st)
           \<and> length (sprites_so_far st) = 25
           \<and> length (sprites g) = 50
           \<and> rev (sprites g) = sprites g"
proof -
  from assms have "\<exists>new. sprites_so_far st = [] @ new
      \<and> list_all2 (\<lambda>p f. \<exists>img. io p = Inr img \<and> f = image_frame_of img)
           (map (\<lambda>i. os_path_join dir (asset_name i)) [1..25]) new"
    using load_loop_None [of io dir "[1..25]" "\<lparr>sprites_so_far = [], opened = []\<rparr>" st]
    by (simp add: load_sprites_def)
  then have len: "length (sprites_so_far st) = 25"
    by (auto dest: list_all2_lengthD)
  then obtain first others where "sprites_so_far st = first # others"
    by (cases "sprites_so_far st") auto
  with assms len show ?thesis
    by (simp add: module_init_def Let_def)
qed

theorem sprites_are_keyframes_then_reverse_witness:
  "load_sprites (Image_open example_externals) (script_dir example_externals) =
     (None, \<lparr>sprites_so_far = replicate 9 \<lparr>image_f = [], size_f = (23, 576), format_f = Some ''PNG''\<rparr> @ replicate 16 \<lparr>image_f = [], size_f = (24, 576), format_f = Some ''PNG''\<rparr>,
        opened = [''/bot/assets/robot01.png'', ''/bot/assets/robot02.png'', ''/bot/assets/robot03.png'', ''/bot/assets/robot04.png'', ''/bot/assets/robot05.png'', ''/bot/assets/robot06.png'', ''/bot/assets/robot07.png'', ''/bot/assets/robot08.png'', ''/bot/assets/robot09.png'', ''/bot/assets/robot010.png'', ''/bot/assets/robot011.png'', ''/bot/assets/robot012.png'', ''/bot/assets/robot013.png'', ''/bot/assets/robot014.png'', ''/bot/assets/robot015.png'', ''/bot/assets/robot016.png'', ''/bot/assets/robot017.png'', ''/bot/assets/robot018.png'', ''/bot/assets/robot019.png'', ''/bot/assets/robot020.png'', ''/bot/assets/robot021.png'', ''/bot/assets/robot022.png'', ''/bot/assets/robot023.png'', ''/bot/assets/robot024.png'', ''/bot/assets/robot025.png'']\<rparr>)
   \<and> (\<exists>g. module_init (Image_open example_externals) (script_dir example_externals) = Inr g
         \<and> sprites g = (replicate 9 \<lparr>image_f = [], size_f = (23, 576), format_f = Some ''PNG''\<rparr> @ replicate 16 \<lparr>image_f = [], size_f = (24, 576), format_f = Some ''PNG''\<rparr>) @ rev (replicate 9 \<lparr>image_f = [], size_f = (23, 576), format_f = Some ''PNG''\<rparr> @ replicate 16 \<lparr>image_f = [], size_f = (24, 576), format_f = Some ''PNG''\<rparr>)
         \<and> length (sprites g) = 50
         \<and> rev (sprites g) = sprites g)"
  using sprites_are_keyframes_then_reverse [OF example_load_sprites] example_load_sprites
  by auto

text \<open>
  C6. When each of the 25 asset paths opens, the loop runs to its end: it has called
  \<open>Image.open\<close> on exactly the 25 paths \<open>assets/robot01.png\<close> to \<open>assets/robot025.png\<close>
  under the script's directory, one per index from 1 to 25 and in index order, all
  different, and has appended one image frame per path, in the same order.
\<close>

theorem sprite_loading_reads_25_assets:
  assumes "\<forall>p \<in> set (asset_paths dir). \<exists>img. io p = Inr img"
  shows "\<exists>st. load_sprites io dir = (None, st)
           \<and> opened st = asset_paths dir
           \<and> opened st = map (os_path_join dir) [''assets/robot01.png'', ''assets/robot02.png'', ''assets/robot03.png'', ''assets/robot04.png'', ''assets/robot05.png'', ''assets/robot06.png'', ''assets/robot07.png'', ''assets/robot08.png'', ''assets/robot09.png'', ''assets/robot010.png'', ''assets/robot011.png'', ''assets/robot012.png'', ''assets/robot013.png'', ''assets/robot014.png'', ''assets/robot015.png'', ''assets/robot016.png'', ''assets/robot017.png'', ''assets/robot018.png'', ''assets/robot019.png'', ''assets/robot020.png'', ''assets/robot021.png'', ''assets/robot022.png'', ''assets/robot023.png'', ''assets/robot024.png'', ''assets/robot025.png'']
           \<and> length (opened st) = 25
           \<and> distinct (opened st)
           \<and> length (sprites_so_far st) = 25
           \<and> list_all2 (\<lambda>p f. \<exists>img. io p = Inr img \<and> f = image_frame_of img)
                (opened st) (sprites_so_far st)"
proof -
  from assms have "\<forall>i \<in> set [1..25]. \<exists>img. io (os_path_join dir (asset_name i)) = Inr img"
    by (simp add: asset_paths_def)
  from load_loop_completes [OF this] obtain st where
    st: "load_sprites io dir = (None, st)"
    unfolding load_sprites_def by blast
  from st have op: "opened st = asset_paths dir"
    and "\<exists>new. sprites_so_far st = [] @ new
      \<and> list_all2 (\<lambda>p f. \<exists>img. io p = Inr img \<and> f = image_frame_of img)
           (asset_paths dir) new"
    using load_loop_None [of io dir "[1..25]" "\<lparr>sprites_so_far = [], opened = []\<rparr>" st]
    by (simp_all add: load_sprites_def asset_paths_def)
  then have rel: "list_all2 (\<lambda>p f. \<exists>img. io p = Inr img \<and> f = image_frame_of img)
           (opened st) (sprites_so_far st)"
    by simp
  from rel have "length (sprites_so_far st) = length (opened st)"
    by (simp add: list_all2_lengthD)
  with st op rel show ?thesis
    using asset_paths_eval [of dir] length_asset_paths [of dir] distinct_asset_paths [of dir]
    by (intro exI [of _ st]) simp
qed

theorem sprite_loading_reads_25_assets_witness:
  "list_all (\<lambda>p. \<exists>img. Image_open example_externals p = Inr img)
     (asset_paths (script_dir example_externals))
   \<and> (\<exists>st. load_sprites (Image_open example_externals) (script_dir example_externals) = (None, st)
         \<and> opened st = map (os_path_join (script_dir example_externals)) [''assets/robot01.png'', ''assets/robot02.png'', ''assets/robot03.png'', ''assets/robot04.png'', ''assets/robot05.png'', ''assets/robot06.png'', ''assets/robot07.png'', ''assets/robot08.png'', ''assets/robot09.png'', ''assets/robot010.png'', ''assets/robot011.png'', ''assets/robot012.png'', ''assets/robot013.png'', ''assets/robot014.png'', ''assets/robot015.png'', ''assets/robot016.png'', ''assets/robot017.png'', ''assets/robot018.png'', ''assets/robot019.png'', ''assets/robot020.png'', ''assets/robot021.png'', ''assets/robot022.png'', ''assets/robot023.png'', ''assets/robot024.png'', ''assets/robot025.png'']
         \<and> length (opened st) = 25
         \<and> length (sprites_so_far st) = 25)"
proof -
  have h: "\<forall>p \<in> set (asset_paths (script_dir example_externals)).
       \<exists>img. Image_open example_externals p = Inr img"
    by (simp add: example_externals_def)
  from sprite_loading_reads_25_assets [OF h] h show ?thesis
    unfolding list_all_iff by blast
qed

section \<open>Properties of \<open>main\<close> and of the script as a whole\<close>

text \<open>
  C4. The pipeline \<open>main\<close> builds has exactly seven stages, in this order: the transport's
  input, the user-message aggregator, the LLM service, the TTS service, the
  \<open>TalkingAnimation\<close> processor, the transport's output, the assistant-message aggregator;
  both ends are of the one transport, and the task is built on this pipeline.
\<close>

theorem pipeline_stage_order:
  "(let l = main_setup ext content url tok session in
      map stage_of (pipeline l) =
        [Transport_input, User_aggregator, LLM_service, TTS_service,
         Talking_animation, Transport_output, Assistant_aggregator]
    \<and> pipeline l =
        [DailyTransport_input (transport l), user_response l, OpenAILLMService (llm l),
         ElevenLabsTTSService (tts l), TalkingAnimation (ta l),
         DailyTransport_output (transport l), assistant_response l]
    \<and> user_response l = LLMUserResponseAggregator
    \<and> assistant_response l = LLMAssistantResponseAggregator
    \<and> length (pipeline l) = 7
    \<and> task_pipeline (task l) = pipeline l)"
  by (simp add: main_setup_def Let_def)

text \<open>
  Straight-line calls: the run ends at the first call that raises, having made the calls up
  to it and none after it; it returns only when every call returns. The same for \<open>main\<close>,
  whose body is left through the session's exit. No call occurs twice in the body, so each
  call is identified by its place in the list.
\<close>

lemma distinct_main_calls: "distinct (main_calls ext g content url tok session)"
  by (simp add: main_calls_def Let_def)

lemma run_calls_first_raise:
  "\<forall>c' \<in> set before. raises ext c' = None \<Longrightarrow> raises ext c = Some e \<Longrightarrow>
     run_calls ext (before @ c # after) made = (Inl e, made @ before @ [c])"
  by (induction before arbitrary: made) simp_all

lemma run_calls_all_return:
  "\<forall>c \<in> set cs. raises ext c = None \<Longrightarrow> run_calls ext cs made = (Inr (), made @ cs)"
  by (induction cs arbitrary: made) simp_all

lemma run_calls_Inr:
  "run_calls ext cs made = (Inr u, made') \<Longrightarrow>
     (\<forall>c \<in> set cs. raises ext c = None) \<and> made' = made @ cs"
proof (induction cs arbitrary: made)
  case Nil
  then show ?case by simp
next
  case (Cons a cs)
  from Cons.prems have none: "raises ext a = None"
    by (simp split: option.splits)
  with Cons.prems have "run_calls ext cs (made @ [a]) = (Inr u, made')"
    by simp
  from Cons.IH [OF this] none show ?case by simp
qed

lemma main_Inr:
  assumes "fst (main ext g content url tok) = Inr u"
  shows "\<exists>session. ClientSession ext = Inr session
           \<and> (\<forall>c \<in> set (main_calls ext g content url tok session). raises ext c = None)
           \<and> raises ext (Call_ClientSession_exit session) = None"
proof (cases "ClientSession ext")
  case (Inl e)
  with assms show ?thesis by (simp add: main_def)
next
  case (Inr session)
  obtain r made where rc: "run_calls ext (main_calls ext g content url tok session) [] = (r, made)"
    by (cases "run_calls ext (main_calls ext g content url tok session) []") auto
  from assms Inr rc have "raises ext (Call_ClientSession_exit session) = None" and "r = Inr u"
    by (auto simp: main_def split: option.splits)
  with rc Inr run_calls_Inr [of ext "main_calls ext g content url tok session" "[]" u made]
  show ?thesis by simp
qed

lemma main_first_raise:
  assumes "ClientSession ext = Inr session"
    and "main_calls ext g content url tok session = before @ c # after"
    and "\<forall>c' \<in> set before. raises ext c' = None"
    and "raises ext c = Some e"
  shows "main ext g content url tok =
           (Inl (case raises ext (Call_ClientSession_exit session) of
                   None \<Rightarrow> e | Some e' \<Rightarrow> e'),
            before @ [c, Call_ClientSession_exit session])"
  using assms run_calls_first_raise [of before ext c e after "[]"]
  by (simp add: main_def split: option.splits)

text \<open>
  C7. Nothing in the script catches an exception. One raised by \<open>Image.open\<close> in the loading
  loop ends the module's initialisation and the script with that exception, at the first
  index that fails, with the frames appended before it still in the list. One raised on
  entering the client session is what \<open>main\<close> raises, with nothing else done. One raised by
  any call inside the session, the run of the pipeline among them, ends the body there: no
  later call is made, the only thing done after it is the session's exit, and \<open>main\<close> raises
  (that exception, or the one the closing of the session raises). So \<open>main\<close> returns only
  when no call has raised; whatever \<open>main\<close> raises is the result of the script, and the
  script ends without an exception only when nothing has raised at all.
\<close>

theorem failures_propagate_unhandled:
  "((\<forall>c \<in> set module_calls. raises ext c = None)
      \<and> load_sprites (Image_open ext) (script_dir ext) = (Some e, st) \<longrightarrow>
      module_init (Image_open ext) (script_dir ext) = Inl e
    \<and> script ext content = Inl e
    \<and> (\<exists>done i later.
          [1..25] = done @ i # later
        \<and> Image_open ext (os_path_join (script_dir ext) (asset_name i)) = Inl e
        \<and> opened st = map (\<lambda>i. os_path_join (script_dir ext) (asset_name i)) (done @ [i])
        \<and> list_all2 (\<lambda>p f. \<exists>img. Image_open ext p = Inr img \<and> f = image_frame_of img)
             (map (\<lambda>i. os_path_join (script_dir ext) (asset_name i)) done)
             (sprites_so_far st)))
 \<and> (ClientSession ext = Inl e \<longrightarrow> main ext g content url tok = (Inl e, []))
 \<and> (ClientSession ext = Inr session
      \<and> main_calls ext g content url tok session = before @ c # after
      \<and> (\<forall>c' \<in> set before. raises ext c' = None)
      \<and> raises ext c = Some e
      \<longrightarrow> main ext g content url tok =
            (Inl (case raises ext (Call_ClientSession_exit session) of
                    None \<Rightarrow> e | Some e' \<Rightarrow> e'),
             before @ [c, Call_ClientSession_exit session]))
 \<and> (ClientSession ext = Inr session
      \<and> (\<forall>c' \<in> set (butlast (main_calls ext g content url tok session)).
             raises ext c' = None)
      \<and> raises ext (Call_runner_run (task (main_setup ext content url tok session))) = Some e
      \<longrightarrow> fst (main ext g content url tok) =
            Inl (case raises ext (Call_ClientSession_exit session) of
                   None \<Rightarrow> e | Some e' \<Rightarrow> e'))
 \<and> (fst (main ext g content url tok) = Inr u \<longrightarrow>
      (\<exists>session. ClientSession ext = Inr session
         \<and> (\<forall>c \<in> set (main_calls ext g content url tok session). raises ext c = None)
         \<and> raises ext (Call_ClientSession_exit session) = None))
 \<and> ((\<forall>c \<in> set module_calls. raises ext c = None)
      \<and> module_init (Image_open ext) (script_dir ext) = Inr g
      \<and> configure ext = Inr (url, tok)
      \<and> fst (main ext g content url tok) = Inl e
      \<longrightarrow> script ext content = Inl e)
 \<and> (script ext content = Inr u \<longrightarrow>
      (\<forall>c \<in> set module_calls. raises ext c = None)
    \<and> (\<exists>st'. load_sprites (Image_open ext) (script_dir ext) = (None, st'))
    \<and> (\<exists>g' url' tok'.
          module_init (Image_open ext) (script_dir ext) = Inr g'
        \<and> configure ext = Inr (url', tok')
        \<and> fst (main ext g' content url' tok') = Inr u))"
proof -
  have load: "(\<forall>c \<in> set module_calls. raises ext c = None) \<Longrightarrow>
      load_sprites (Image_open ext) (script_dir ext) = (Some e, st) \<Longrightarrow>
      module_init (Image_open ext) (script_dir ext) = Inl e
    \<and> script ext content = Inl e
    \<and> (\<exists>done i later.
          [1..25] = done @ i # later
        \<and> Image_open ext (os_path_join (script_dir ext) (asset_name i)) = Inl e
        \<and> opened st = map (\<lambda>i. os_path_join (script_dir ext) (asset_name i)) (done @ [i])
        \<and> list_all2 (\<lambda>p f. \<exists>img. Image_open ext p = Inr img \<and> f = image_frame_of img)
             (map (\<lambda>i. os_path_join (script_dir ext) (asset_name i)) done)
             (sprites_so_far st))"
  proof -
    assume pre: "\<forall>c \<in> set module_calls. raises ext c = None"
    assume h: "load_sprites (Image_open ext) (script_dir ext) = (Some e, st)"
    then have m: "module_init (Image_open ext) (script_dir ext) = Inl e"
      by (simp add: module_init_def)
    from pre have "run_calls ext module_calls [] = (Inr (), module_calls)"
      using run_calls_all_return [of module_calls ext "[]"] by simp
    with m have s: "script ext content = Inl e"
      by (simp add: script_def)
    from h have "load_loop (Image_open ext) (script_dir ext) [1..25]
                   \<lparr>sprites_so_far = [], opened = []\<rparr> = (Some e, st)"
      by (simp add: load_sprites_def)
    from load_loop_Some [OF this] have
      "\<exists>done i later.
          [1..25] = done @ i # later
        \<and> Image_open ext (os_path_join (script_dir ext) (asset_name i)) = Inl e
        \<and> opened st = map (\<lambda>i. os_path_join (script_dir ext) (asset_name i)) (done @ [i])
        \<and> list_all2 (\<lambda>p f. \<exists>img. Image_open ext p = Inr img \<and> f = image_frame_of img)
             (map (\<lambda>i. os_path_join (script_dir ext) (asset_name i)) done)
             (sprites_so_far st)"
      by auto
    with m s show ?thesis by blast
  qed
  have session: "ClientSession ext = Inl e \<Longrightarrow> main ext g content url tok = (Inl e, [])"
    by (simp add: main_def)
  have inside: "ClientSession ext = Inr session \<Longrightarrow>
      main_calls ext g content url tok session = before @ c # after \<Longrightarrow>
      \<forall>c' \<in> set before. raises ext c' = None \<Longrightarrow> raises ext c = Some e \<Longrightarrow>
      main ext g content url tok =
            (Inl (case raises ext (Call_ClientSession_exit session) of
                    None \<Rightarrow> e | Some e' \<Rightarrow> e'),
             before @ [c, Call_ClientSession_exit session])"
    by (rule main_first_raise)
  have run: "ClientSession ext = Inr session \<Longrightarrow>
      \<forall>c' \<in> set (butlast (main_calls ext g content url tok session)). raises ext c' = None \<Longrightarrow>
      raises ext (Call_runner_run (task (main_setup ext content url tok session))) = Some e \<Longrightarrow>
      fst (main ext g content url tok) =
            Inl (case raises ext (Call_ClientSession_exit session) of
                   None \<Rightarrow> e | Some e' \<Rightarrow> e')"
  proof -
    assume a: "ClientSession ext = Inr session"
      and b: "\<forall>c' \<in> set (butlast (main_calls ext g content url tok session)). raises ext c' = None"
      and c: "raises ext (Call_runner_run (task (main_setup ext content url tok session))) = Some e"
    have "main_calls ext g content url tok session =
            butlast (main_calls ext g content url tok session)
              @ Call_runner_run (task (main_setup ext content url tok session)) # []"
      by (simp add: main_calls_def Let_def)
    from main_first_raise [OF a this b c] show ?thesis by simp
  qed
  have returns: "fst (main ext g content url tok) = Inr u \<Longrightarrow>
      (\<exists>session. ClientSession ext = Inr session
         \<and> (\<forall>c \<in> set (main_calls ext g content url tok session). raises ext c = None)
         \<and> raises ext (Call_ClientSession_exit session) = None)"
    by (rule main_Inr)
  have top: "(\<forall>c \<in> set module_calls. raises ext c = None) \<Longrightarrow>
      module_init (Image_open ext) (script_dir ext) = Inr g \<Longrightarrow>
      configure ext = Inr (url, tok) \<Longrightarrow> fst (main ext g content url tok) = Inl e
      \<Longrightarrow> script ext content = Inl e"
    using run_calls_all_return [of module_calls ext "[]"]
    by (simp add: script_def)
  have ends: "script ext content = Inr u \<Longrightarrow>
      (\<forall>c \<in> set module_calls. raises ext c = None)
    \<and> (\<exists>st'. load_sprites (Image_open ext) (script_dir ext) = (None, st'))
    \<and> (\<exists>g' url' tok'.
          module_init (Image_open ext) (script_dir ext) = Inr g'
        \<and> configure ext = Inr (url', tok')
        \<and> fst (main ext g' content url' tok') = Inr u)"
  proof -
    assume h: "script ext content = Inr u"
    obtain r made where rc: "run_calls ext module_calls [] = (r, made)"
      by (cases "run_calls ext module_calls []") auto
    with h obtain u' where r: "r = Inr u'"
      by (cases r) (auto simp: script_def)
    with rc have pre: "\<forall>c \<in> set module_calls. raises ext c = None"
      using run_calls_Inr [of ext module_calls "[]" u' made] by simp
    from h rc r obtain g' where g': "module_init (Image_open ext) (script_dir ext) = Inr g'"
      by (cases "module_init (Image_open ext) (script_dir ext)") (auto simp: script_def)
    then have ld: "\<exists>st'. load_sprites (Image_open ext) (script_dir ext) = (None, st')"
      by (auto simp: module_init_def split: prod.splits option.splits)
    from h rc r g' obtain url' tok' where cf: "configure ext = Inr (url', tok')"
      by (cases "configure ext") (auto simp: script_def)
    with h rc r g' have "fst (main ext g' content url' tok') = Inr u"
      by (simp add: script_def)
    with pre ld g' cf show ?thesis by blast
  qed
  from load session inside run returns top ends show ?thesis by blast
qed

theorem failures_propagate_unhandled_witness:
  "load_sprites (Image_open example_missing_asset) (script_dir example_missing_asset) =
     (Some (Raised ''FileNotFoundError''),
      \<lparr>sprites_so_far = [\<lparr>image_f = [], size_f = (23, 576), format_f = Some ''PNG''\<rparr>, \<lparr>image_f = [], size_f = (23, 576), format_f = Some ''PNG''\<rparr>],
         opened = [''/bot/assets/robot01.png'', ''/bot/assets/robot02.png'',
                   ''/bot/assets/robot03.png'']\<rparr>)
   \<and> script example_missing_asset ''prompt'' = Inl (Raised ''FileNotFoundError'')
   \<and> ClientSession example_no_session = Inl (Raised ''ClientConnectorError'')
   \<and> main example_no_session example_globals ''prompt'' example_url ''token'' =
       (Inl (Raised ''ClientConnectorError''), [])
   \<and> raises example_no_key (Call_OpenAILLMService \<lparr>llm_api_key = None, model = ''gpt-4o''\<rparr>) =
       Some (Raised ''OpenAIError'')
   \<and> main example_no_key example_loaded_globals ''prompt'' example_url ''token'' =
       (Inl (Raised ''OpenAIError''),
        [Call_SileroVADAnalyzer, Call_DailyParams \<lparr>audio_out_enabled = True, camera_out_enabled = True,
               camera_out_width = 1024, camera_out_height = 576, vad_enabled = True,
               vad_analyzer = ''SileroVADAnalyzer'', transcription_enabled = True\<rparr>,
          Call_DailyTransport \<lparr>room_url = example_url, token = ''token'', bot_name = ''Chatbot'',
             params = \<lparr>audio_out_enabled = True, camera_out_enabled = True,
               camera_out_width = 1024, camera_out_height = 576, vad_enabled = True,
               vad_analyzer = ''SileroVADAnalyzer'', transcription_enabled = True\<rparr>\<rparr>,
          Call_ElevenLabsTTSService
            \<lparr>aiohttp_session = (), tts_api_key = None,
             voice_id = ''TX3LPaxmHKxFdv7VOQHJ''\<rparr>]
        @ [Call_OpenAILLMService \<lparr>llm_api_key = None, model = ''gpt-4o''\<rparr>,
           Call_ClientSession_exit ()])
   \<and> script example_no_key ''prompt'' = Inl (Raised ''OpenAIError'')
   \<and> raises example_run_fails (Call_runner_run (task (main_setup example_run_fails ''prompt'' example_url ''token'' ())))
       = Some (Raised ''CancelledError'')
   \<and> fst (main example_run_fails example_loaded_globals ''prompt'' example_url ''token'') = Inl (Raised ''CancelledError'')
   \<and> script example_run_fails ''prompt'' = Inl (Raised ''CancelledError'')"
proof -
  have a: "load_sprites (Image_open example_missing_asset) (script_dir example_missing_asset) =
     (Some (Raised ''FileNotFoundError''),
      \<lparr>sprites_so_far = [\<lparr>image_f = [], size_f = (23, 576), format_f = Some ''PNG''\<rparr>, \<lparr>image_f = [], size_f = (23, 576), format_f = Some ''PNG''\<rparr>],
         opened = [''/bot/assets/robot01.png'', ''/bot/assets/robot02.png'',
                   ''/bot/assets/robot03.png'']\<rparr>)"
    by (rule example_load_failure)
  have pa: "\<forall>c \<in> set module_calls. raises example_missing_asset c = None"
    by (simp add: module_calls_def example_externals_def)
  have ra: "script example_missing_asset ''prompt'' = Inl (Raised ''FileNotFoundError'')"
    using a pa
      failures_propagate_unhandled
        [where ext = "example_missing_asset" and e = "Raised ''FileNotFoundError''"
           and st = "\<lparr>sprites_so_far = [\<lparr>image_f = [], size_f = (23, 576), format_f = Some ''PNG''\<rparr>, \<lparr>image_f = [], size_f = (23, 576), format_f = Some ''PNG''\<rparr>],
         opened = [''/bot/assets/robot01.png'', ''/bot/assets/robot02.png'',
                   ''/bot/assets/robot03.png'']\<rparr>"
           and content = "''prompt''",
         THEN conjunct1, THEN mp]
    by simp
  have b: "ClientSession example_no_session = Inl (Raised ''ClientConnectorError'')"
    by (simp add: example_externals_def)
  have rb: "main example_no_session example_globals ''prompt'' example_url ''token'' =
       (Inl (Raised ''ClientConnectorError''), [])"
    using b
      failures_propagate_unhandled
        [where ext = "example_no_session" and e = "Raised ''ClientConnectorError''" and g = example_globals
           and content = "''prompt''" and url = "example_url" and tok = "''token''",
         THEN conjunct2, THEN conjunct1, THEN mp]
    by simp
  have k: "ClientSession example_no_key = Inr ()"
    "main_calls example_no_key example_loaded_globals ''prompt'' example_url ''token'' () =
       [Call_SileroVADAnalyzer, Call_DailyParams \<lparr>audio_out_enabled = True, camera_out_enabled = True,
               camera_out_width = 1024, camera_out_height = 576, vad_enabled = True,
               vad_analyzer = ''SileroVADAnalyzer'', transcription_enabled = True\<rparr>,
          Call_DailyTransport \<lparr>room_url = example_url, token = ''token'', bot_name = ''Chatbot'',
             params = \<lparr>audio_out_enabled = True, camera_out_enabled = True,
               camera_out_width = 1024, camera_out_height = 576, vad_enabled = True,
               vad_analyzer = ''SileroVADAnalyzer'', transcription_enabled = True\<rparr>\<rparr>,
          Call_ElevenLabsTTSService
            \<lparr>aiohttp_session = (), tts_api_key = None,
             voice_id = ''TX3LPaxmHKxFdv7VOQHJ''\<rparr>]
       @ Call_OpenAILLMService \<lparr>llm_api_key = None, model = ''gpt-4o''\<rparr>
       # [Call_LLMUserResponseAggregator, Call_LLMAssistantResponseAggregator,
          Call_FrameProcessor_init, Call_transport_input \<lparr>room_url = example_url, token = ''token'', bot_name = ''Chatbot'',
             params = \<lparr>audio_out_enabled = True, camera_out_enabled = True,
               camera_out_width = 1024, camera_out_height = 576, vad_enabled = True,
               vad_analyzer = ''SileroVADAnalyzer'', transcription_enabled = True\<rparr>\<rparr>,
          Call_transport_output \<lparr>room_url = example_url, token = ''token'', bot_name = ''Chatbot'',
             params = \<lparr>audio_out_enabled = True, camera_out_enabled = True,
               camera_out_width = 1024, camera_out_height = 576, vad_enabled = True,
               vad_analyzer = ''SileroVADAnalyzer'', transcription_enabled = True\<rparr>\<rparr>,
          Call_Pipeline (pipeline (main_setup example_no_key ''prompt'' example_url ''token'' ())), Call_PipelineParams True,
          Call_PipelineTask (task (main_setup example_no_key ''prompt'' example_url ''token'' ())),
          Call_queue_frame (task (main_setup example_no_key ''prompt'' example_url ''token'' ())) (quiet_frame example_loaded_globals),
          Call_event_handler ''on_first_participant_joined'', Call_PipelineRunner,
          Call_runner_run (task (main_setup example_no_key ''prompt'' example_url ''token'' ()))]"
    "\<forall>c' \<in> set [Call_SileroVADAnalyzer, Call_DailyParams \<lparr>audio_out_enabled = True, camera_out_enabled = True,
               camera_out_width = 1024, camera_out_height = 576, vad_enabled = True,
               vad_analyzer = ''SileroVADAnalyzer'', transcription_enabled = True\<rparr>,
          Call_DailyTransport \<lparr>room_url = example_url, token = ''token'', bot_name = ''Chatbot'',
             params = \<lparr>audio_out_enabled = True, camera_out_enabled = True,
               camera_out_width = 1024, camera_out_height = 576, vad_enabled = True,
               vad_analyzer = ''SileroVADAnalyzer'', transcription_enabled = True\<rparr>\<rparr>,
          Call_ElevenLabsTTSService
            \<lparr>aiohttp_session = (), tts_api_key = None,
             voice_id = ''TX3LPaxmHKxFdv7VOQHJ''\<rparr>].
        raises example_no_key c' = None"
    "raises example_no_key (Call_OpenAILLMService \<lparr>llm_api_key = None, model = ''gpt-4o''\<rparr>) =
       Some (Raised ''OpenAIError'')"
    "raises example_no_key (Call_ClientSession_exit ()) = None"
    "\<forall>c \<in> set module_calls. raises example_no_key c = None"
    "configure example_no_key = Inr (example_url, ''token'')"
    by (simp_all add: example_externals_def main_calls_def main_setup_def Let_def
          module_calls_def)
  have mk: "module_init (Image_open example_no_key) (script_dir example_no_key) = Inr example_loaded_globals"
    using example_module_init by simp
  have rk: "main example_no_key example_loaded_globals ''prompt'' example_url ''token'' =
       (Inl (Raised ''OpenAIError''),
        [Call_SileroVADAnalyzer, Call_DailyParams \<lparr>audio_out_enabled = True, camera_out_enabled = True,
               camera_out_width = 1024, camera_out_height = 576, vad_enabled = True,
               vad_analyzer = ''SileroVADAnalyzer'', transcription_enabled = True\<rparr>,
          Call_DailyTransport \<lparr>room_url = example_url, token = ''token'', bot_name = ''Chatbot'',
             params = \<lparr>audio_out_enabled = True, camera_out_enabled = True,
               camera_out_width = 1024, camera_out_height = 576, vad_enabled = True,
               vad_analyzer = ''SileroVADAnalyzer'', transcription_enabled = True\<rparr>\<rparr>,
          Call_ElevenLabsTTSService
            \<lparr>aiohttp_session = (), tts_api_key = None,
             voice_id = ''TX3LPaxmHKxFdv7VOQHJ''\<rparr>]
        @ [Call_OpenAILLMService \<lparr>llm_api_key = None, model = ''gpt-4o''\<rparr>,
           Call_ClientSession_exit ()])"
    using k
      failures_propagate_unhandled
        [where ext = "example_no_key" and e = "Raised ''OpenAIError''" and g = "example_loaded_globals"
           and content = "''prompt''" and url = "example_url" and tok = "''token''" and session = "()"
           and before = "[Call_SileroVADAnalyzer, Call_DailyParams \<lparr>audio_out_enabled = True, camera_out_enabled = True,
               camera_out_width = 1024, camera_out_height = 576, vad_enabled = True,
               vad_analyzer = ''SileroVADAnalyzer'', transcription_enabled = True\<rparr>,
          Call_DailyTransport \<lparr>room_url = example_url, token = ''token'', bot_name = ''Chatbot'',
             params = \<lparr>audio_out_enabled = True, camera_out_enabled = True,
               camera_out_width = 1024, camera_out_height = 576, vad_enabled = True,
               vad_analyzer = ''SileroVADAnalyzer'', transcription_enabled = True\<rparr>\<rparr>,
          Call_ElevenLabsTTSService
            \<lparr>aiohttp_session = (), tts_api_key = None,
             voice_id = ''TX3LPaxmHKxFdv7VOQHJ''\<rparr>]"
           and c = "Call_OpenAILLMService \<lparr>llm_api_key = None, model = ''gpt-4o''\<rparr>"
           and after = "[Call_LLMUserResponseAggregator, Call_LLMAssistantResponseAggregator,
          Call_FrameProcessor_init, Call_transport_input \<lparr>room_url = example_url, token = ''token'', bot_name = ''Chatbot'',
             params = \<lparr>audio_out_enabled = True, camera_out_enabled = True,
               camera_out_width = 1024, camera_out_height = 576, vad_enabled = True,
               vad_analyzer = ''SileroVADAnalyzer'', transcription_enabled = True\<rparr>\<rparr>,
          Call_transport_output \<lparr>room_url = example_url, token = ''token'', bot_name = ''Chatbot'',
             params = \<lparr>audio_out_enabled = True, camera_out_enabled = True,
               camera_out_width = 1024, camera_out_height = 576, vad_enabled = True,
               vad_analyzer = ''SileroVADAnalyzer'', transcription_enabled = True\<rparr>\<rparr>,
          Call_Pipeline (pipeline (main_setup example_no_key ''prompt'' example_url ''token'' ())), Call_PipelineParams True,
          Call_PipelineTask (task (main_setup example_no_key ''prompt'' example_url ''token'' ())),
          Call_queue_frame (task (main_setup example_no_key ''prompt'' example_url ''token'' ())) (quiet_frame example_loaded_globals),
          Call_event_handler ''on_first_participant_joined'', Call_PipelineRunner,
          Call_runner_run (task (main_setup example_no_key ''prompt'' example_url ''token'' ()))]",
         THEN conjunct2, THEN conjunct2, THEN conjunct1, THEN mp]
    by simp
  have sk: "script example_no_key ''prompt'' = Inl (Raised ''OpenAIError'')"
    using k mk rk
      failures_propagate_unhandled
        [where ext = "example_no_key" and e = "Raised ''OpenAIError''" and g = "example_loaded_globals"
           and content = "''prompt''" and url = "example_url" and tok = "''token''",
         THEN conjunct2, THEN conjunct2, THEN conjunct2, THEN conjunct2, THEN conjunct2,
         THEN conjunct1, THEN mp]
    by simp
  have c: "ClientSession example_run_fails = Inr ()"
    "\<forall>c' \<in> set (butlast (main_calls example_run_fails example_loaded_globals ''prompt'' example_url ''token'' ())).
        raises example_run_fails c' = None"
    "raises example_run_fails (Call_runner_run (task (main_setup example_run_fails ''prompt'' example_url ''token'' ())))
       = Some (Raised ''CancelledError'')"
    "raises example_run_fails (Call_ClientSession_exit ()) = None"
    "\<forall>c \<in> set module_calls. raises example_run_fails c = None"
    "configure example_run_fails = Inr (example_url, ''token'')"
    by (simp_all add: example_externals_def main_calls_def main_setup_def Let_def
          module_calls_def)
  have mc: "module_init (Image_open example_run_fails) (script_dir example_run_fails) = Inr example_loaded_globals"
    using example_module_init by simp
  have rc: "fst (main example_run_fails example_loaded_globals ''prompt'' example_url ''token'') = Inl (Raised ''CancelledError'')"
    using c
      failures_propagate_unhandled
        [where ext = "example_run_fails" and e = "Raised ''CancelledError''" and g = "example_loaded_globals"
           and content = "''prompt''" and url = "example_url" and tok = "''token''" and session = "()",
         THEN conjunct2, THEN conjunct2, THEN conjunct2, THEN conjunct1, THEN mp]
    by simp
  have sc: "script example_run_fails ''prompt'' = Inl (Raised ''CancelledError'')"
    using c mc rc
      failures_propagate_unhandled
        [where ext = "example_run_fails" and e = "Raised ''CancelledError''" and g = "example_loaded_globals"
           and content = "''prompt''" and url = "example_url" and tok = "''token''",
         THEN conjunct2, THEN conjunct2, THEN conjunct2, THEN conjunct2, THEN conjunct2,
         THEN conjunct1, THEN mp]
    by simp
  show ?thesis
    by (intro conjI; rule a ra b rb k(4) rk sk c(3) rc sc)
qed

end
